theory Spec2Isabelle
  imports Main
begin

section \<open>Data model (types.ts)\<close>

datatype TelemetryType = Metric | Event | Error | Trace

datatype MetricRating = Good | NeedsImprovement | Poor

text \<open>
  Values of TypeScript type \<open>unknown\<close>. The engine only asks whether such a value is an
  \<open>Error\<close> instance (then it reads \<open>message\<close> and the optional \<open>stack\<close>) and
  otherwise coerces it with \<open>String(...)\<close>; it never computes with a property value.
  \<open>JError m st\<close> is an instance of \<open>Error\<close> or of a subclass, with its message and
  stack. \<open>JOther x\<close> is any other value that is not an \<open>Error\<close> (a number, an array,
  an object, ...), given by the string \<open>x\<close> that \<open>String(...)\<close> returns for it: the
  number \<open>42\<close> is \<open>JOther ''42''\<close>, the number \<open>1e21\<close> is \<open>JOther ''1e+21''\<close>.
\<close>

datatype jsvalue =
    JUndefined
  | JNull
  | JBool bool
  | JStr string
  | JOther string
  | JError string "string option"

type_synonym props = "string \<rightharpoonup> jsvalue"

record TelemetryEvent =
  type' :: TelemetryType
  name :: string
  value' :: "int option"
  rating :: "MetricRating option"
  properties :: "props option"
  timestamp :: int
  sessionId :: string
  page :: string

text \<open>
  What the host shows to one callback while it runs: the clock, the window object, the
  value the random session id generator would produce and the boolean
  \<open>navigator.sendBeacon\<close> would return. \<open>date_now_later\<close> is the second reading of
  \<open>Date.now()\<close> inside one callback; only the failure handler of \<open>flush\<close> reads the
  clock twice.
\<close>

record env =
  date_now :: int
  date_now_later :: int
  has_window :: bool
  has_requestIdleCallback :: bool
  location_pathname :: string
  location_hostname :: string
  window_ENV_VITE_ENV :: "string option"
  generated_session_id :: string
  visibility_hidden :: bool
  beacon_queued :: bool

record ObservabilityConfig =
  debug :: bool
  batchSize :: int
  flushInterval :: int
  telemetryEndpoint :: string
  useBeacon :: bool
  sessionKey :: string
  sessionIdProvider :: "(env \<Rightarrow> string) option"
  pageProvider :: "(env \<Rightarrow> string) option"
  isDevelopmentProvider :: "(env \<Rightarrow> bool) option"

text \<open>\<open>Partial<ObservabilityConfig>\<close>: every key may be absent.\<close>

record ObservabilityOptions =
  opt_debug :: "bool option"
  opt_batchSize :: "int option"
  opt_flushInterval :: "int option"
  opt_telemetryEndpoint :: "string option"
  opt_useBeacon :: "bool option"
  opt_sessionKey :: "string option"
  opt_sessionIdProvider :: "(env \<Rightarrow> string) option"
  opt_pageProvider :: "(env \<Rightarrow> string) option"
  opt_isDevelopmentProvider :: "(env \<Rightarrow> bool) option"

section \<open>Host environment: timers, deferred callbacks, console, network\<close>

datatype callback = CbScheduleFlush | CbFlush

datatype task_kind = SetTimeout int | RequestIdleCallback int

datatype task = Task nat task_kind callback

datatype listener = OnVisibilityChange | OnBeforeUnload

datatype log_msg =
    LogCollected TelemetryType string
  | LogFlushing nat
  | LogRecovered nat
  | LogBeaconFlush nat
  | LogInitialized
  | LogCleanedUp

text \<open>
  Observable effects, in the order they happen. \<open>ConsoleWarn at attempt secs detail\<close> is the
  failure warning: \<open>at\<close> is the clock reading \<open>logNow\<close> at which it is printed,
  \<open>attempt\<close> and \<open>secs\<close> are the two numbers interpolated into its text, \<open>detail\<close> is
  its second argument.
\<close>

datatype effect =
    Fetch string "TelemetryEvent list"
  | SendBeacon string "TelemetryEvent list"
  | ConsoleWarn int nat int jsvalue
  | ConsoleError jsvalue
  | ConsoleLog log_msg

text \<open>How an awaited \<open>fetch\<close> ends: a response with its status, or a rejection.\<close>

datatype fetch_result = Resolved nat | Rejected jsvalue

text \<open>
  The closure state of one instance (the \<open>let\<close> variables of \<open>createObservability\<close> and
  its constants \<open>config\<close>, \<open>isDebug\<close>), the module state of session.ts
  (\<open>cachedSessionId\<close>) and the part of the host the instance acts on: the session
  storage, the pending timers and deferred callbacks, the listeners registered on the
  window, the batches of the requests still awaited, and the effects so far.
  Timer handles are positive numbers, so a stored handle is truthy.
\<close>

record state =
  config :: ObservabilityConfig
  isDebug :: bool
  eventQueue :: "TelemetryEvent list"
  flushTimer :: "nat option"
  isInitialized :: bool
  boundHandleVisibilityChange :: bool
  boundFlushWithBeacon :: bool
  consecutiveFailures :: nat
  backoffUntil :: int
  lastErrorLogged :: int
  cachedSessionId :: "string option"
  sessionStorage :: "string \<rightharpoonup> string"
  tasks :: "task list"
  next_handle :: nat
  listeners :: "listener list"
  inflight :: "TelemetryEvent list list"
  trace :: "effect list"

definition MAX_BACKOFF_MS :: int where
  "MAX_BACKOFF_MS = 5 * 60 * 1000"

definition ERROR_LOG_INTERVAL_MS :: int where
  "ERROR_LOG_INTERVAL_MS = 60000"

definition DEFAULT_CONFIG :: ObservabilityConfig where
  "DEFAULT_CONFIG =
     \<lparr> debug = False, batchSize = 10, flushInterval = 5000,
       telemetryEndpoint = ''/api/telemetry'', useBeacon = True,
       sessionKey = ''pleme_session_id'', sessionIdProvider = None,
       pageProvider = None, isDevelopmentProvider = None \<rparr>"

definition or_default :: "'a option \<Rightarrow> 'a \<Rightarrow> 'a" where
  "or_default x d = (case x of Some v \<Rightarrow> v | None \<Rightarrow> d)"

text \<open>\<open>{ ...DEFAULT_CONFIG, ...options }\<close>\<close>

definition merge_config :: "ObservabilityOptions \<Rightarrow> ObservabilityConfig" where
  "merge_config options =
     \<lparr> debug = or_default (opt_debug options) (debug DEFAULT_CONFIG),
       batchSize = or_default (opt_batchSize options) (batchSize DEFAULT_CONFIG),
       flushInterval = or_default (opt_flushInterval options) (flushInterval DEFAULT_CONFIG),
       telemetryEndpoint =
         or_default (opt_telemetryEndpoint options) (telemetryEndpoint DEFAULT_CONFIG),
       useBeacon = or_default (opt_useBeacon options) (useBeacon DEFAULT_CONFIG),
       sessionKey = or_default (opt_sessionKey options) (sessionKey DEFAULT_CONFIG),
       sessionIdProvider = opt_sessionIdProvider options,
       pageProvider = opt_pageProvider options,
       isDevelopmentProvider = opt_isDevelopmentProvider options \<rparr>"

definition no_options :: ObservabilityOptions where
  "no_options =
     \<lparr> opt_debug = None, opt_batchSize = None, opt_flushInterval = None,
       opt_telemetryEndpoint = None, opt_useBeacon = None, opt_sessionKey = None,
       opt_sessionIdProvider = None, opt_pageProvider = None,
       opt_isDevelopmentProvider = None \<rparr>"

text \<open>\<open>setTimeout(cb, delay)\<close>: a fresh handle, and the callback pending.\<close>

definition setTimeout :: "callback \<Rightarrow> int \<Rightarrow> state \<Rightarrow> nat \<times> state" where
  "setTimeout cb delay s =
     (next_handle s,
      s\<lparr> tasks := tasks s @ [Task (next_handle s) (SetTimeout delay) cb],
         next_handle := Suc (next_handle s) \<rparr>)"

definition requestIdleCallback :: "callback \<Rightarrow> int \<Rightarrow> state \<Rightarrow> nat \<times> state" where
  "requestIdleCallback cb tmo s =
     (next_handle s,
      s\<lparr> tasks := tasks s @ [Task (next_handle s) (RequestIdleCallback tmo) cb],
         next_handle := Suc (next_handle s) \<rparr>)"

fun is_timeout :: "nat \<Rightarrow> task \<Rightarrow> bool" where
  "is_timeout h (Task h' (SetTimeout d) cb) = (h = h')"
| "is_timeout h (Task h' (RequestIdleCallback d) cb) = False"

text \<open>\<open>clearTimeout(h)\<close>: the pending timeout with that handle, if any, is dropped.\<close>

definition clearTimeout :: "nat \<Rightarrow> state \<Rightarrow> state" where
  "clearTimeout h s = s\<lparr> tasks := filter (\<lambda>t. \<not> is_timeout h t) (tasks s) \<rparr>"

definition emit :: "effect \<Rightarrow> state \<Rightarrow> state" where
  "emit e s = s\<lparr> trace := trace s @ [e] \<rparr>"

definition debug_log :: "log_msg \<Rightarrow> state \<Rightarrow> state" where
  "debug_log m s = (if isDebug s then emit (ConsoleLog m) s else s)"

section \<open>Session management (session.ts)\<close>

text \<open>
  \<open>getSessionId(sessionKey)\<close>. The tests \<open>if (cachedSessionId)\<close> and
  \<open>if (!sessionId)\<close> are truthiness tests: the empty string counts as absent.
\<close>

definition resolveSessionId :: "env \<Rightarrow> string \<Rightarrow> state \<Rightarrow> string \<times> state" where
  "resolveSessionId e key s =
     (if \<not> has_window e then (''ssr'', s\<lparr> cachedSessionId := Some ''ssr'' \<rparr>)
      else
        (let stored = (case sessionStorage s key of
                         Some i \<Rightarrow> if i \<noteq> [] then Some i else None
                       | None \<Rightarrow> None)
         in case stored of
              Some i \<Rightarrow> (i, s\<lparr> cachedSessionId := Some i \<rparr>)
            | None \<Rightarrow>
                (generated_session_id e,
                 s\<lparr> sessionStorage := (sessionStorage s)(key \<mapsto> generated_session_id e),
                    cachedSessionId := Some (generated_session_id e) \<rparr>)))"

definition getSessionId :: "env \<Rightarrow> string \<Rightarrow> state \<Rightarrow> string \<times> state" where
  "getSessionId e key s =
     (case cachedSessionId s of
        Some c \<Rightarrow> if c \<noteq> [] then (c, s) else resolveSessionId e key s
      | None \<Rightarrow> resolveSessionId e key s)"

definition resetSessionCache :: "state \<Rightarrow> state" where
  "resetSessionCache s = s\<lparr> cachedSessionId := None \<rparr>"

definition getCurrentPage :: "env \<Rightarrow> string" where
  "getCurrentPage e = (if \<not> has_window e then ''/'' else location_pathname e)"

definition ends_with :: "string \<Rightarrow> string \<Rightarrow> bool" where
  "ends_with str suf =
     (length suf \<le> length str \<and> drop (length str - length suf) str = suf)"

definition isDevelopment :: "env \<Rightarrow> bool" where
  "isDevelopment e =
     (if \<not> has_window e then False
      else (case window_ENV_VITE_ENV e of
              Some v \<Rightarrow>
                if v \<noteq> [] then v = ''development''
                else (location_hostname e = ''localhost'' \<or>
                      location_hostname e = ''127.0.0.1'' \<or>
                      ends_with (location_hostname e) ''.local'')
            | None \<Rightarrow>
                (location_hostname e = ''localhost'' \<or>
                 location_hostname e = ''127.0.0.1'' \<or>
                 ends_with (location_hostname e) ''.local'')))"

section \<open>JavaScript coercions\<close>

text \<open>
  The decimal digits of a natural number, for the status in
  \<open>`Telemetry request failed: ${response.status}`\<close>: a status is a number of at most
  five digits, and the string form of such an integer is its decimal notation.
\<close>

fun show_nat :: "nat \<Rightarrow> string" where
  "show_nat n =
     (if n < 10 then [''0123456789'' ! n]
      else show_nat (n div 10) @ [''0123456789'' ! (n mod 10)])"

text \<open>
  \<open>error instanceof Error ? error.message : String(error)\<close>: the message of an
  \<open>Error\<close>, the string form of any other value.
\<close>

fun message_of :: "jsvalue \<Rightarrow> string" where
  "message_of (JError m st) = m"
| "message_of JUndefined = ''undefined''"
| "message_of JNull = ''null''"
| "message_of (JBool b) = (if b then ''true'' else ''false'')"
| "message_of (JStr x) = x"
| "message_of (JOther x) = x"

text \<open>\<open>v instanceof Error\<close>\<close>

fun instanceof_Error :: "jsvalue \<Rightarrow> bool" where
  "instanceof_Error (JError m st) = True"
| "instanceof_Error v = False"

fun error_message :: "jsvalue \<Rightarrow> string" where
  "error_message (JError m st) = m"
| "error_message v = []"

text \<open>\<open>error.stack\<close>, which is a string or \<open>undefined\<close>.\<close>

fun error_stack :: "jsvalue \<Rightarrow> jsvalue" where
  "error_stack (JError m (Some st)) = JStr st"
| "error_stack v = JUndefined"

text \<open>\<open>{ ...properties }\<close>: spreading an absent argument contributes no key.\<close>

definition spread :: "props option \<Rightarrow> props" where
  "spread p = (case p of Some m \<Rightarrow> m | None \<Rightarrow> Map.empty)"

text \<open>\<open>Math.round(d / k)\<close> on integers, for positive \<open>k\<close>: halves round up.\<close>

definition round_div :: "int \<Rightarrow> int \<Rightarrow> int" where
  "round_div d k = (2 * d + k) div (2 * k)"

text \<open>\<open>response.ok\<close>\<close>

definition response_ok :: "nat \<Rightarrow> bool" where
  "response_ok status = (200 \<le> status \<and> status \<le> 299)"

section \<open>Telemetry core (telemetry.ts)\<close>

definition getSession :: "env \<Rightarrow> state \<Rightarrow> string \<times> state" where
  "getSession e s =
     (case sessionIdProvider (config s) of
        Some f \<Rightarrow> (f e, s)
      | None \<Rightarrow> getSessionId e (sessionKey (config s)) s)"

definition getPage :: "env \<Rightarrow> state \<Rightarrow> string" where
  "getPage e s =
     (case pageProvider (config s) of
        Some f \<Rightarrow> f e
      | None \<Rightarrow> getCurrentPage e)"

definition scheduleFlush :: "env \<Rightarrow> state \<Rightarrow> state" where
  "scheduleFlush e s =
     (let s1 = (case flushTimer s of
                  Some h \<Rightarrow> (clearTimeout h s)\<lparr> flushTimer := None \<rparr>
                | None \<Rightarrow> s)
      in if eventQueue s1 = [] then s1
         else if has_window e \<and> has_requestIdleCallback e
              then snd (requestIdleCallback CbFlush 2000 s1)
              else snd (setTimeout CbFlush 0 s1))"

text \<open>\<open>flushTimer = setTimeout(scheduleFlush, delay)\<close>\<close>

definition arm_flushTimer :: "int \<Rightarrow> state \<Rightarrow> state" where
  "arm_flushTimer delay s =
     (let (h, s1) = setTimeout CbScheduleFlush delay s in s1\<lparr> flushTimer := Some h \<rparr>)"

text \<open>
  \<open>collect(event)\<close>; the argument object is given by its five fields.
\<close>

definition fullEvent ::
  "env \<Rightarrow> TelemetryType \<Rightarrow> string \<Rightarrow> int option \<Rightarrow> MetricRating option \<Rightarrow> props option \<Rightarrow>
   state \<Rightarrow> TelemetryEvent" where
  "fullEvent e ty nm v r p s =
     \<lparr> type' = ty, name = nm, value' = v, rating = r, properties = p,
       timestamp = date_now e,
       sessionId = fst (getSession e s),
       page = getPage e (snd (getSession e s)) \<rparr>"

definition collect ::
  "env \<Rightarrow> TelemetryType \<Rightarrow> string \<Rightarrow> int option \<Rightarrow> MetricRating option \<Rightarrow> props option \<Rightarrow>
   state \<Rightarrow> state" where
  "collect e ty nm v r p s =
     (let s1 = snd (getSession e s);
          s2 = s1\<lparr> eventQueue := eventQueue s1 @ [fullEvent e ty nm v r p s] \<rparr>;
          s3 = debug_log (LogCollected ty nm) s2
      in if int (length (eventQueue s3)) \<ge> batchSize (config s3) then scheduleFlush e s3
         else if flushTimer s3 = None then arm_flushTimer (flushInterval (config s3)) s3
         else s3)"

text \<open>
  \<open>getBackoffDelay()\<close>. \<open>Math.pow(2, consecutiveFailures - 1)\<close> is one half at a count of
  zero and a power of two otherwise.
\<close>

definition getBackoffDelay :: "state \<Rightarrow> int" where
  "getBackoffDelay s =
     min (if consecutiveFailures s = 0 then 2500
          else 5000 * 2 ^ (consecutiveFailures s - 1))
         MAX_BACKOFF_MS"

text \<open>
  \<open>flush()\<close> is asynchronous. \<open>flush\<close> is its synchronous part, up to the awaited
  \<open>fetch\<close>: the batch it detaches waits in \<open>inflight\<close>. \<open>flush_settled\<close> is the part
  after the \<open>await\<close>, run when the request ends, with the \<open>catch\<close> block as
  \<open>flush_catch\<close> and the code after the status check as \<open>flush_then\<close>. The request
  is taken to start: serialising the batch and calling \<open>fetch\<close> do not throw.
\<close>

definition flush :: "env \<Rightarrow> state \<Rightarrow> state" where
  "flush e s =
     (if eventQueue s = [] then s
      else
        (let now = date_now e
         in if now < backoffUntil s then
              (if flushTimer s = None then arm_flushTimer (backoffUntil s - now) s else s)
            else
              (let events = eventQueue s;
                   s1 = s\<lparr> eventQueue := [] \<rparr>;
                   s2 = debug_log (LogFlushing (length events)) s1;
                   s3 = emit (Fetch (telemetryEndpoint (config s2)) events) s2
               in s3\<lparr> inflight := inflight s3 @ [events] \<rparr>)))"

definition flush_catch :: "env \<Rightarrow> jsvalue \<Rightarrow> TelemetryEvent list \<Rightarrow> state \<Rightarrow> state" where
  "flush_catch e err events s =
     (let s1 = s\<lparr> consecutiveFailures := Suc (consecutiveFailures s) \<rparr>;
          spaceLeft = 100 - int (length (eventQueue s1));
          s2 = (if spaceLeft > 0
                then s1\<lparr> eventQueue := eventQueue s1 @ take (nat spaceLeft) events \<rparr>
                else s1);
          delay = getBackoffDelay s2;
          s3 = s2\<lparr> backoffUntil := date_now e + delay \<rparr>;
          logNow = date_now_later e;
          s4 = (if logNow - lastErrorLogged s3 \<ge> ERROR_LOG_INTERVAL_MS
                then emit (ConsoleWarn logNow (consecutiveFailures s3) (round_div delay 1000)
                             (if instanceof_Error err then JStr (error_message err) else err))
                          (s3\<lparr> lastErrorLogged := logNow \<rparr>)
                else s3)
      in if flushTimer s4 = None then arm_flushTimer delay s4 else s4)"

definition flush_then :: "state \<Rightarrow> state" where
  "flush_then s =
     (let s1 = (if consecutiveFailures s > 0
                then debug_log (LogRecovered (consecutiveFailures s)) s else s)
      in s1\<lparr> consecutiveFailures := 0, backoffUntil := 0 \<rparr>)"

definition flush_settled :: "env \<Rightarrow> fetch_result \<Rightarrow> TelemetryEvent list \<Rightarrow> state \<Rightarrow> state" where
  "flush_settled e r events s =
     (case r of
        Rejected err \<Rightarrow> flush_catch e err events s
      | Resolved status \<Rightarrow>
          if \<not> response_ok status
          then flush_catch e
                 (JError (''Telemetry request failed: '' @ show_nat status) None) events s
          else flush_then s)"

text \<open>
  \<open>flushWithBeacon()\<close>. The boolean that \<open>navigator.sendBeacon\<close> returns
  (\<open>beacon_queued e\<close>) is discarded by the code.
\<close>

definition flushWithBeacon :: "env \<Rightarrow> state \<Rightarrow> state" where
  "flushWithBeacon e s =
     (if eventQueue s = [] \<or> \<not> useBeacon (config s) then s
      else
        (let events = eventQueue s;
             s1 = s\<lparr> eventQueue := [] \<rparr>;
             s2 = debug_log (LogBeaconFlush (length events)) s1
         in emit (SendBeacon (telemetryEndpoint (config s2)) events) s2))"

definition init :: "env \<Rightarrow> state \<Rightarrow> state" where
  "init e s =
     (if isInitialized s \<or> \<not> has_window e then s
      else
        (let s1 = (if useBeacon (config s)
                   then s\<lparr> boundHandleVisibilityChange := True,
                           boundFlushWithBeacon := True,
                           listeners := listeners s @ [OnVisibilityChange, OnBeforeUnload] \<rparr>
                   else s);
             s2 = s1\<lparr> isInitialized := True \<rparr>
         in debug_log LogInitialized s2))"

text \<open>
  \<open>createObservability(options)\<close> on a freshly loaded page: nothing cached or stored, no
  timer pending, no effect yet.
\<close>

definition createObservability :: "env \<Rightarrow> ObservabilityOptions \<Rightarrow> state" where
  "createObservability e options =
     init e
       \<lparr> config = merge_config options,
         isDebug = (debug (merge_config options) \<or>
                    (case isDevelopmentProvider (merge_config options) of
                       Some f \<Rightarrow> f e
                     | None \<Rightarrow> isDevelopment e)),
         eventQueue = [],
         flushTimer = None,
         isInitialized = False,
         boundHandleVisibilityChange = False,
         boundFlushWithBeacon = False,
         consecutiveFailures = 0,
         backoffUntil = 0,
         lastErrorLogged = 0,
         cachedSessionId = None,
         sessionStorage = Map.empty,
         tasks = [],
         next_handle = 1,
         listeners = [],
         inflight = [],
         trace = [] \<rparr>"

subsection \<open>The public API\<close>

definition trackMetric ::
  "env \<Rightarrow> string \<Rightarrow> int \<Rightarrow> MetricRating option \<Rightarrow> props option \<Rightarrow> state \<Rightarrow> state" where
  "trackMetric e nm v r p s = collect e Metric nm (Some v) r p s"

definition trackEvent :: "env \<Rightarrow> string \<Rightarrow> props option \<Rightarrow> state \<Rightarrow> state" where
  "trackEvent e nm p s = collect e Event nm None None p s"

definition error_properties :: "jsvalue \<Rightarrow> props option \<Rightarrow> props" where
  "error_properties err p =
     spread p ++
     [''error'' \<mapsto> err,
      ''message'' \<mapsto> JStr (message_of err),
      ''stack'' \<mapsto> (if instanceof_Error err then error_stack err else JUndefined)]"

definition trackError :: "env \<Rightarrow> string \<Rightarrow> jsvalue \<Rightarrow> props option \<Rightarrow> state \<Rightarrow> state" where
  "trackError e nm err p s = collect e Error nm None None (Some (error_properties err p)) s"

definition trackTrace :: "env \<Rightarrow> string \<Rightarrow> props option \<Rightarrow> state \<Rightarrow> state" where
  "trackTrace e nm p s = collect e Trace nm None None p s"

definition captureException :: "env \<Rightarrow> jsvalue \<Rightarrow> props option \<Rightarrow> state \<Rightarrow> state" where
  "captureException e err ctx s = emit (ConsoleError err) (trackError e ''exception'' err ctx s)"

definition page_view_properties :: "string \<Rightarrow> props option \<Rightarrow> props" where
  "page_view_properties path p = [''path'' \<mapsto> JStr path] ++ spread p"

definition trackPageView :: "env \<Rightarrow> string \<Rightarrow> props option \<Rightarrow> state \<Rightarrow> state" where
  "trackPageView e path p s = trackEvent e ''page_view'' (Some (page_view_properties path p)) s"

definition flush_api :: "env \<Rightarrow> state \<Rightarrow> state" where
  "flush_api e s = scheduleFlush e s"

definition cleanup :: "env \<Rightarrow> state \<Rightarrow> state" where
  "cleanup e s =
     (let s1 = (if has_window e \<and> boundHandleVisibilityChange s
                then s\<lparr> listeners := removeAll OnVisibilityChange (listeners s),
                        boundHandleVisibilityChange := False \<rparr>
                else s);
          s2 = (if has_window e \<and> boundFlushWithBeacon s1
                then s1\<lparr> listeners := removeAll OnBeforeUnload (listeners s1),
                         boundFlushWithBeacon := False \<rparr>
                else s1);
          s3 = (case flushTimer s2 of
                  Some h \<Rightarrow> (clearTimeout h s2)\<lparr> flushTimer := None \<rparr>
                | None \<Rightarrow> s2);
          s4 = resetSessionCache (s3\<lparr> isInitialized := False \<rparr>)
      in debug_log LogCleanedUp s4)"

definition getSessionId_api :: "env \<Rightarrow> state \<Rightarrow> string \<times> state" where
  "getSessionId_api e s = getSession e s"

section \<open>The event loop\<close>

text \<open>
  Everything that can happen to an instance: a call of its API by the application, or the
  host running one of the callbacks the instance handed to it (a pending timer or idle
  callback, the end of an awaited request, a page lifecycle event).
\<close>

datatype action =
    TrackMetric string int "MetricRating option" "props option"
  | TrackEvent string "props option"
  | TrackError string jsvalue "props option"
  | TrackTrace string "props option"
  | CaptureException jsvalue "props option"
  | TrackPageView string "props option"
  | FlushCall
  | Cleanup
  | GetSessionId
  | RunTask nat
  | FetchSettled nat fetch_result
  | VisibilityChange
  | BeforeUnload

fun task_handle :: "task \<Rightarrow> nat" where
  "task_handle (Task h k cb) = h"

fun task_callback :: "task \<Rightarrow> callback" where
  "task_callback (Task h k cb) = cb"

definition run_callback :: "env \<Rightarrow> callback \<Rightarrow> state \<Rightarrow> state" where
  "run_callback e cb s = (case cb of CbScheduleFlush \<Rightarrow> scheduleFlush e s | CbFlush \<Rightarrow> flush e s)"

text \<open>The host runs the pending callback with handle \<open>h\<close>, which is then no longer pending.\<close>

definition run_task :: "env \<Rightarrow> nat \<Rightarrow> state \<Rightarrow> state" where
  "run_task e h s =
     (case filter (\<lambda>t. task_handle t = h) (tasks s) of
        [] \<Rightarrow> s
      | t # ts \<Rightarrow>
          run_callback e (task_callback t)
            (s\<lparr> tasks := filter (\<lambda>t. task_handle t \<noteq> h) (tasks s) \<rparr>))"

text \<open>The \<open>k\<close>-th awaited request ends with result \<open>r\<close>.\<close>

definition fetch_settled :: "env \<Rightarrow> nat \<Rightarrow> fetch_result \<Rightarrow> state \<Rightarrow> state" where
  "fetch_settled e k r s =
     (if k < length (inflight s)
      then flush_settled e r (inflight s ! k)
             (s\<lparr> inflight := take k (inflight s) @ drop (Suc k) (inflight s) \<rparr>)
      else s)"

definition handleVisibilityChange :: "env \<Rightarrow> state \<Rightarrow> state" where
  "handleVisibilityChange e s = (if visibility_hidden e then flushWithBeacon e s else s)"

fun step :: "env \<Rightarrow> action \<Rightarrow> state \<Rightarrow> state" where
  "step e (TrackMetric nm v r p) s = trackMetric e nm v r p s"
| "step e (TrackEvent nm p) s = trackEvent e nm p s"
| "step e (TrackError nm err p) s = trackError e nm err p s"
| "step e (TrackTrace nm p) s = trackTrace e nm p s"
| "step e (CaptureException err ctx) s = captureException e err ctx s"
| "step e (TrackPageView path p) s = trackPageView e path p s"
| "step e FlushCall s = flush_api e s"
| "step e Cleanup s = cleanup e s"
| "step e GetSessionId s = snd (getSessionId_api e s)"
| "step e (RunTask h) s = run_task e h s"
| "step e (FetchSettled k r) s = fetch_settled e k r s"
| "step e VisibilityChange s =
     (if OnVisibilityChange \<in> set (listeners s) then handleVisibilityChange e s else s)"
| "step e BeforeUnload s =
     (if OnBeforeUnload \<in> set (listeners s) then flushWithBeacon e s else s)"

fun run :: "(env \<times> action) list \<Rightarrow> state \<Rightarrow> state" where
  "run [] s = s"
| "run ((e, a) # rest) s = run rest (step e a s)"

section \<open>The requeue as the specification words it\<close>

text \<open>
  The specification's wording of the requeue, for comparison with \<open>flush_catch\<close>: the
  failed batch goes in front of the current queue, the total is capped at 100 events, and
  over the cap the oldest events of the failed batch are dropped first.
\<close>

definition requeue_spec :: "'a list \<Rightarrow> 'a list \<Rightarrow> 'a list" where
  "requeue_spec queue batch = drop (length batch + length queue - 100) batch @ queue"

section \<open>Auxiliary notions and concrete inputs\<close>

text \<open>A request fails when it is rejected or answered with a status outside 200..299.\<close>

definition failed :: "fetch_result \<Rightarrow> bool" where
  "failed r = (case r of Rejected err \<Rightarrow> True | Resolved status \<Rightarrow> \<not> response_ok status)"

definition env_at :: "int \<Rightarrow> env" where
  "env_at t =
     \<lparr> date_now = t, date_now_later = t, has_window = True, has_requestIdleCallback = True,
       location_pathname = ''/home'', location_hostname = ''app.example.com'',
       window_ENV_VITE_ENV = None, generated_session_id = ''1700000000000-k3j9x0q1z'',
       visibility_hidden = False, beacon_queued = True \<rparr>"

definition sample_event :: "string \<Rightarrow> TelemetryEvent" where
  "sample_event nm =
     \<lparr> type' = Event, name = nm, value' = None, rating = None, properties = None,
       timestamp = 1000000, sessionId = ''1700000000000-k3j9x0q1z'', page = ''/home'' \<rparr>"

definition fresh :: state where
  "fresh = createObservability (env_at 1000000) no_options"

text \<open>The value under key \<open>k\<close> in the properties of the most recently queued event.\<close>

definition last_property :: "string \<Rightarrow> state \<Rightarrow> jsvalue option" where
  "last_property k s =
     (case eventQueue s of
        [] \<Rightarrow> None
      | x # xs \<Rightarrow> (case properties (last (eventQueue s)) of None \<Rightarrow> None | Some m \<Rightarrow> m k))"

text \<open>The API calls that record an event.\<close>

fun is_track :: "action \<Rightarrow> bool" where
  "is_track (TrackMetric nm v r p) = True"
| "is_track (TrackEvent nm p) = True"
| "is_track (TrackError nm err p) = True"
| "is_track (TrackTrace nm p) = True"
| "is_track (CaptureException err ctx) = True"
| "is_track (TrackPageView path p) = True"
| "is_track a = False"

text \<open>The delivery attempts among the effects: network sends of either kind.\<close>

fun is_delivery :: "effect \<Rightarrow> bool" where
  "is_delivery (Fetch url events) = True"
| "is_delivery (SendBeacon url events) = True"
| "is_delivery x = False"

definition deliveries :: "effect list \<Rightarrow> effect list" where
  "deliveries tr = filter is_delivery tr"

text \<open>The clock readings at which the failure warnings of a trace were printed, in order.\<close>

fun warn_times :: "effect list \<Rightarrow> int list" where
  "warn_times [] = []"
| "warn_times (ConsoleWarn t a d x # es) = t # warn_times es"
| "warn_times (x # es) = warn_times es"

text \<open>
  The invariant behind the rate limit: the warnings so far are at least
  \<open>ERROR_LOG_INTERVAL_MS\<close> apart, and none is later than \<open>lastErrorLogged\<close>.
\<close>

definition warn_inv :: "state \<Rightarrow> bool" where
  "warn_inv s =
     (sorted_wrt (\<lambda>t u. u - t \<ge> ERROR_LOG_INTERVAL_MS) (warn_times (trace s)) \<and>
      (\<forall>t \<in> set (warn_times (trace s)). t \<le> lastErrorLogged s))"

text \<open>
  The events an instance holds: those in its queue and those of the batches whose requests
  are still awaited.
\<close>

definition held :: "state \<Rightarrow> TelemetryEvent set" where
  "held s = set (eventQueue s) \<union> \<Union> (set ` set (inflight s))"


text \<open>
  One event is tracked and flushed on request; the request is rejected, which opens a
  backoff window until 1005100. At 1001000 the application calls \<open>flush()\<close> again:
  the deferred flush (handle 4) is pending and no timer is.
\<close>

definition backoff_scenario :: state where
  "backoff_scenario =
     run [(env_at 1000000, TrackEvent ''a'' None),
          (env_at 1000000, FlushCall),
          (env_at 1000000, RunTask 2),
          (env_at 1000100, FetchSettled 0 (Rejected (JError ''Network error'' None))),
          (env_at 1001000, FlushCall)]
       fresh"


text \<open>
  Two events are tracked and flushed on request; a third is tracked while the request is
  awaited, and then the request is rejected.
\<close>

definition requeue_scenario :: state where
  "requeue_scenario =
     run [(env_at 1000000, TrackEvent ''a'' None),
          (env_at 1000010, TrackEvent ''b'' None),
          (env_at 1000020, FlushCall),
          (env_at 1000020, RunTask 2),
          (env_at 1000050, TrackEvent ''c'' None),
          (env_at 1000100, FetchSettled 0 (Rejected (JError ''Network error'' None)))]
       fresh"


text \<open>
  An outage: three delivery attempts of one event fail, at 1000100, 1005200 and 1065200.
\<close>

definition outage_scenario :: "(env \<times> action) list" where
  "outage_scenario =
     [(env_at 1000000, TrackEvent ''a'' None),
      (env_at 1000000, FlushCall),
      (env_at 1000000, RunTask 2),
      (env_at 1000100, FetchSettled 0 (Rejected (JError ''Network error'' None))),
      (env_at 1005100, RunTask 3),
      (env_at 1005100, RunTask 4),
      (env_at 1005200, FetchSettled 0 (Resolved 503)),
      (env_at 1015200, RunTask 5),
      (env_at 1015200, RunTask 6),
      (env_at 1065200, FetchSettled 0 (Rejected (JStr ''offline'')))]"

section \<open>Frame lemmas for the building blocks\<close>

lemma emit_fields [simp]:
  "config (emit x s) = config s"
  "isDebug (emit x s) = isDebug s"
  "eventQueue (emit x s) = eventQueue s"
  "flushTimer (emit x s) = flushTimer s"
  "consecutiveFailures (emit x s) = consecutiveFailures s"
  "backoffUntil (emit x s) = backoffUntil s"
  "lastErrorLogged (emit x s) = lastErrorLogged s"
  "tasks (emit x s) = tasks s"
  "next_handle (emit x s) = next_handle s"
  "listeners (emit x s) = listeners s"
  "inflight (emit x s) = inflight s"
  "trace (emit x s) = trace s @ [x]"
  by (simp_all add: emit_def)

lemma debug_log_fields [simp]:
  "config (debug_log m s) = config s"
  "isDebug (debug_log m s) = isDebug s"
  "eventQueue (debug_log m s) = eventQueue s"
  "flushTimer (debug_log m s) = flushTimer s"
  "consecutiveFailures (debug_log m s) = consecutiveFailures s"
  "backoffUntil (debug_log m s) = backoffUntil s"
  "lastErrorLogged (debug_log m s) = lastErrorLogged s"
  "tasks (debug_log m s) = tasks s"
  "next_handle (debug_log m s) = next_handle s"
  "listeners (debug_log m s) = listeners s"
  "inflight (debug_log m s) = inflight s"
  "trace (debug_log m s) = trace s @ (if isDebug s then [ConsoleLog m] else [])"
  by (simp_all add: debug_log_def)

lemma arm_flushTimer_fields [simp]:
  "config (arm_flushTimer d s) = config s"
  "isDebug (arm_flushTimer d s) = isDebug s"
  "eventQueue (arm_flushTimer d s) = eventQueue s"
  "flushTimer (arm_flushTimer d s) = Some (next_handle s)"
  "consecutiveFailures (arm_flushTimer d s) = consecutiveFailures s"
  "backoffUntil (arm_flushTimer d s) = backoffUntil s"
  "lastErrorLogged (arm_flushTimer d s) = lastErrorLogged s"
  "tasks (arm_flushTimer d s) = tasks s @ [Task (next_handle s) (SetTimeout d) CbScheduleFlush]"
  "next_handle (arm_flushTimer d s) = Suc (next_handle s)"
  "listeners (arm_flushTimer d s) = listeners s"
  "inflight (arm_flushTimer d s) = inflight s"
  "trace (arm_flushTimer d s) = trace s"
  by (simp_all add: arm_flushTimer_def setTimeout_def)

lemma getSession_frame:
  "\<exists>c m. snd (getSession e s) = s\<lparr> cachedSessionId := c, sessionStorage := m \<rparr>"
proof (cases "sessionIdProvider (config s)")
  case (Some f)
  have "\<exists>c m. s = s\<lparr> cachedSessionId := c, sessionStorage := m \<rparr>"
    by (rule exI [of _ "cachedSessionId s"], rule exI [of _ "sessionStorage s"]) simp
  with Some show ?thesis
    by (simp add: getSession_def)
next
  case None
  have a: "\<exists>c m. s = s\<lparr> cachedSessionId := c, sessionStorage := m \<rparr>"
    by (rule exI [of _ "cachedSessionId s"], rule exI [of _ "sessionStorage s"]) simp
  have r: "\<exists>c m. snd (resolveSessionId e k s) = s\<lparr> cachedSessionId := c, sessionStorage := m \<rparr>" for k
  proof (cases "has_window e")
    case False
    have "snd (resolveSessionId e k s) =
          s\<lparr> cachedSessionId := Some ''ssr'', sessionStorage := sessionStorage s \<rparr>"
      using False by (simp add: resolveSessionId_def)
    then show ?thesis by blast
  next
    case True
    show ?thesis
    proof (cases "case sessionStorage s k of Some i \<Rightarrow> if i \<noteq> [] then Some i else None | None \<Rightarrow> None")
      case None
      have "snd (resolveSessionId e k s) =
            s\<lparr> cachedSessionId := Some (generated_session_id e),
               sessionStorage := (sessionStorage s)(k \<mapsto> generated_session_id e) \<rparr>"
        using True None by (simp add: resolveSessionId_def)
      then show ?thesis by blast
    next
      case (Some i)
      have "snd (resolveSessionId e k s) =
            s\<lparr> cachedSessionId := Some i, sessionStorage := sessionStorage s \<rparr>"
        using True Some by (simp add: resolveSessionId_def)
      then show ?thesis by blast
    qed
  qed
  show ?thesis
  proof (cases "cachedSessionId s")
    case None
    with \<open>sessionIdProvider (config s) = None\<close> r show ?thesis
      by (simp add: getSession_def getSessionId_def)
  next
    case (Some c)
    with \<open>sessionIdProvider (config s) = None\<close> r a show ?thesis
      by (cases "c = []") (simp_all add: getSession_def getSessionId_def)
  qed
qed

lemma getSession_fields [simp]:
  "config (snd (getSession e s)) = config s"
  "isDebug (snd (getSession e s)) = isDebug s"
  "eventQueue (snd (getSession e s)) = eventQueue s"
  "flushTimer (snd (getSession e s)) = flushTimer s"
  "consecutiveFailures (snd (getSession e s)) = consecutiveFailures s"
  "backoffUntil (snd (getSession e s)) = backoffUntil s"
  "lastErrorLogged (snd (getSession e s)) = lastErrorLogged s"
  "tasks (snd (getSession e s)) = tasks s"
  "next_handle (snd (getSession e s)) = next_handle s"
  "listeners (snd (getSession e s)) = listeners s"
  "inflight (snd (getSession e s)) = inflight s"
  "trace (snd (getSession e s)) = trace s"
  using getSession_frame [of e s] by auto

lemma getPage_getSession [simp]: "getPage e (snd (getSession e' s)) = getPage e s"
  by (simp add: getPage_def)

lemma scheduleFlush_fields [simp]:
  "config (scheduleFlush e s) = config s"
  "isDebug (scheduleFlush e s) = isDebug s"
  "eventQueue (scheduleFlush e s) = eventQueue s"
  "flushTimer (scheduleFlush e s) = None"
  "consecutiveFailures (scheduleFlush e s) = consecutiveFailures s"
  "backoffUntil (scheduleFlush e s) = backoffUntil s"
  "lastErrorLogged (scheduleFlush e s) = lastErrorLogged s"
  "listeners (scheduleFlush e s) = listeners s"
  "inflight (scheduleFlush e s) = inflight s"
  "trace (scheduleFlush e s) = trace s"
  by (simp_all add: scheduleFlush_def Let_def clearTimeout_def setTimeout_def
        requestIdleCallback_def split: option.splits)

lemma collect_eventQueue:
  "eventQueue (collect e ty nm v r p s) = eventQueue s @ [fullEvent e ty nm v r p s]"
  by (simp add: collect_def Let_def)

lemma fresh_fields:
  "eventQueue fresh = []"
  "flushTimer fresh = None"
  "consecutiveFailures fresh = 0"
  "backoffUntil fresh = 0"
  "lastErrorLogged fresh = 0"
  "tasks fresh = []"
  "next_handle fresh = 1"
  "inflight fresh = []"
  "trace fresh = []"
  "isDebug fresh = False"
  "listeners fresh = [OnVisibilityChange, OnBeforeUnload]"
  "config fresh = DEFAULT_CONFIG"
  by (simp_all add: fresh_def createObservability_def init_def merge_config_def no_options_def
        or_default_def DEFAULT_CONFIG_def env_at_def isDevelopment_def ends_with_def
        debug_log_def Let_def)

section \<open>Evaluating concrete runs\<close>

lemmas engine_defs =
  fresh_def createObservability_def init_def merge_config_def no_options_def
  or_default_def DEFAULT_CONFIG_def env_at_def isDevelopment_def ends_with_def
  debug_log_def Let_def trackEvent_def collect_def fullEvent_def getSession_def getSessionId_def
  resolveSessionId_def getPage_def getCurrentPage_def scheduleFlush_def arm_flushTimer_def
  setTimeout_def requestIdleCallback_def clearTimeout_def flush_api_def run_task_def
  run_callback_def flush_def emit_def fetch_settled_def flush_settled_def flush_catch_def
  getBackoffDelay_def MAX_BACKOFF_MS_def ERROR_LOG_INTERVAL_MS_def round_div_def
  flush_then_def response_ok_def cleanup_def resetSessionCache_def

lemma backoff_scenario_fields:
  "eventQueue backoff_scenario = [sample_event ''a'']"
  "backoffUntil backoff_scenario = 1005100"
  "consecutiveFailures backoff_scenario = 1"
  "flushTimer backoff_scenario = None"
  "next_handle backoff_scenario = 5"
  "inflight backoff_scenario = []"
  "tasks backoff_scenario = [Task 4 (RequestIdleCallback 2000) CbFlush]"
  "trace backoff_scenario =
     [Fetch ''/api/telemetry'' [sample_event ''a''],
      ConsoleWarn 1000100 1 5 (JStr ''Network error'')]"
  by (simp_all add: backoff_scenario_def sample_event_def engine_defs)

lemma backoff_scenario_session:
  "cachedSessionId backoff_scenario = Some ''1700000000000-k3j9x0q1z''"
  "config backoff_scenario = DEFAULT_CONFIG"
  by (simp_all add: backoff_scenario_def engine_defs)

section \<open>Circuit breaker: the backoff delay\<close>

lemma backoff_sequence:
  "map (\<lambda>n. getBackoffDelay (s\<lparr> consecutiveFailures := n \<rparr>)) [1, 2, 3, 4, 5, 6, 7, 8]
     = [5000, 10000, 20000, 40000, 80000, 160000, 300000, 300000]"
  by (simp add: getBackoffDelay_def MAX_BACKOFF_MS_def)

text \<open>
  C3. The \<open>n\<close>-th consecutive failure (the count was \<open>n - 1\<close> before it, \<open>n \<ge> 1\<close>) sets the
  count to \<open>n\<close>, sets \<open>backoffUntil\<close> to the clock reading plus
  \<open>min (5000 * 2 ^ (n - 1)) 300000\<close> milliseconds and, no timer being pending, arms the
  retry timer with exactly that delay.
\<close>

theorem backoff_delay_after_nth_failure:
  "1 \<le> n \<Longrightarrow> consecutiveFailures s = n - 1 \<Longrightarrow>
   consecutiveFailures (flush_catch e err events s) = n \<and>
   backoffUntil (flush_catch e err events s) = date_now e + min (5000 * 2 ^ (n - 1)) 300000 \<and>
   (flushTimer s = None \<longrightarrow>
      tasks (flush_catch e err events s) =
        tasks s @
        [Task (next_handle s) (SetTimeout (min (5000 * 2 ^ (n - 1)) 300000)) CbScheduleFlush])"
  by (simp add: flush_catch_def Let_def getBackoffDelay_def MAX_BACKOFF_MS_def)

theorem backoff_delay_after_nth_failure_witness:
  "(1::nat) \<le> 6 \<and> consecutiveFailures (fresh\<lparr> consecutiveFailures := 5 \<rparr>) = 6 - 1 \<and>
   flushTimer (fresh\<lparr> consecutiveFailures := 5 \<rparr>) = None \<and>
   consecutiveFailures
     (flush_catch (env_at 2000000) (JStr ''offline'') [] (fresh\<lparr> consecutiveFailures := 5 \<rparr>)) = 6 \<and>
   backoffUntil
     (flush_catch (env_at 2000000) (JStr ''offline'') [] (fresh\<lparr> consecutiveFailures := 5 \<rparr>))
     = 2160000 \<and>
   tasks (flush_catch (env_at 2000000) (JStr ''offline'') [] (fresh\<lparr> consecutiveFailures := 5 \<rparr>))
     = [Task 1 (SetTimeout 160000) CbScheduleFlush]"
  using backoff_delay_after_nth_failure
    [of 6 "fresh\<lparr> consecutiveFailures := 5 \<rparr>" "env_at 2000000" "JStr ''offline''" "[]"]
  by (simp add: fresh_fields env_at_def)

section \<open>Standard flush: requeue after a failure\<close>

lemma flush_catch_eventQueue:
  "eventQueue (flush_catch e err events s) =
     eventQueue s @ take (100 - length (eventQueue s)) events"
proof (cases "length (eventQueue s) < 100")
  case True
  then have "nat (100 - int (length (eventQueue s))) = 100 - length (eventQueue s)"
    by simp
  with True show ?thesis
    by (simp add: flush_catch_def Let_def)
next
  case False
  then show ?thesis
    by (simp add: flush_catch_def Let_def)
qed

lemma flush_settled_failed_eventQueue:
  "failed r \<Longrightarrow>
   eventQueue (flush_settled e r events s) =
     eventQueue s @ take (100 - length (eventQueue s)) events"
  by (cases r) (simp_all add: failed_def flush_settled_def flush_catch_eventQueue)

text \<open>
  C1 (as amended). When a standard flush fails, the attempted batch is appended behind the
  events that arrived during the attempt, which all stay in the queue, in front; only the
  first \<open>100 - length queue\<close> events of the batch are put back, so over the cap the
  newest events of the failed batch are the ones dropped; the requeue never makes the queue
  longer than 100 events (a queue already longer than that is left as it is).
\<close>

theorem failed_flush_requeue:
  "failed r \<Longrightarrow>
   eventQueue (flush_settled e r events s) =
     eventQueue s @ take (100 - length (eventQueue s)) events \<and>
   length (eventQueue (flush_settled e r events s)) \<le> max 100 (length (eventQueue s))"
proof -
  assume f: "failed r"
  have q: "eventQueue (flush_settled e r events s) =
             eventQueue s @ take (100 - length (eventQueue s)) events"
    using f by (rule flush_settled_failed_eventQueue)
  have "length (eventQueue s @ take (100 - length (eventQueue s)) events)
          \<le> max 100 (length (eventQueue s))"
    by simp
  with q show ?thesis
    by simp
qed

theorem failed_flush_requeue_witness:
  "failed (Resolved 503) \<and>
   eventQueue (flush_settled (env_at 2000000) (Resolved 503) [sample_event ''a'', sample_event ''b'']
                 (fresh\<lparr> eventQueue := [sample_event ''c''] \<rparr>))
     = [sample_event ''c'', sample_event ''a'', sample_event ''b'']"
proof -
  have f: "failed (Resolved 503)"
    by (simp add: failed_def response_ok_def)
  show ?thesis
    using f failed_flush_requeue [OF f, of "env_at 2000000" "[sample_event ''a'', sample_event ''b'']"
           "fresh\<lparr> eventQueue := [sample_event ''c''] \<rparr>"]
    by simp
qed

theorem failed_flush_requeue_counterexample:
  "map name (eventQueue requeue_scenario) = [''c'', ''a'', ''b''] \<and>
   eventQueue (flush_settled (env_at 2000000) (Rejected (JStr ''offline''))
                 [sample_event ''a'', sample_event ''b'']
                 (fresh\<lparr> eventQueue := [sample_event ''c''] \<rparr>))
     = [sample_event ''c'', sample_event ''a'', sample_event ''b''] \<and>
   requeue_spec [sample_event ''c''] [sample_event ''a'', sample_event ''b'']
     = [sample_event ''a'', sample_event ''b'', sample_event ''c''] \<and>
   [sample_event ''c'', sample_event ''a'', sample_event ''b'']
     \<noteq> [sample_event ''a'', sample_event ''b'', sample_event ''c''] \<and>
   eventQueue (flush_settled (env_at 2000000) (Rejected (JStr ''offline''))
                 [sample_event ''a'', sample_event ''b'']
                 (fresh\<lparr> eventQueue := replicate 99 (sample_event ''c'') \<rparr>))
     = replicate 99 (sample_event ''c'') @ [sample_event ''a''] \<and>
   requeue_spec (replicate 99 (sample_event ''c'')) [sample_event ''a'', sample_event ''b'']
     = sample_event ''b'' # replicate 99 (sample_event ''c'') \<and>
   length (eventQueue (flush_settled (env_at 2000000) (Rejected (JStr ''offline''))
                 [sample_event ''a'', sample_event ''b'']
                 (fresh\<lparr> eventQueue := replicate 101 (sample_event ''c'') \<rparr>)))
     = 101"
proof -
  have ne: "[sample_event ''c'', sample_event ''a'', sample_event ''b'']
              \<noteq> [sample_event ''a'', sample_event ''b'', sample_event ''c'']"
    by (simp add: sample_event_def)
  have sc: "map name (eventQueue requeue_scenario) = [''c'', ''a'', ''b'']"
    by (simp add: requeue_scenario_def engine_defs)
  show ?thesis
    using ne sc by (simp add: flush_settled_def flush_catch_eventQueue requeue_spec_def)
qed

section \<open>Circuit breaker: reset on success\<close>

lemma flush_then_fields [simp]:
  "consecutiveFailures (flush_then s) = 0"
  "backoffUntil (flush_then s) = 0"
  "flushTimer (flush_then s) = flushTimer s"
  "tasks (flush_then s) = tasks s"
  "next_handle (flush_then s) = next_handle s"
  "eventQueue (flush_then s) = eventQueue s"
  "inflight (flush_then s) = inflight s"
  "lastErrorLogged (flush_then s) = lastErrorLogged s"
  "config (flush_then s) = config s"
  "isDebug (flush_then s) = isDebug s"
  "listeners (flush_then s) = listeners s"
  by (simp_all add: flush_then_def Let_def)

text \<open>
  C6. A successful delivery (a response with an ok status) sets \<open>consecutiveFailures\<close> and
  \<open>backoffUntil\<close> to zero whatever they were, and leaves the queue alone; the next failure
  is then failure number one, with a backoff of 5000 ms.
\<close>

theorem success_resets_breaker:
  "response_ok status \<Longrightarrow>
   consecutiveFailures (flush_settled e (Resolved status) events s) = 0 \<and>
   backoffUntil (flush_settled e (Resolved status) events s) = 0 \<and>
   eventQueue (flush_settled e (Resolved status) events s) = eventQueue s \<and>
   consecutiveFailures
     (flush_catch e' err events' (flush_settled e (Resolved status) events s)) = 1 \<and>
   backoffUntil
     (flush_catch e' err events' (flush_settled e (Resolved status) events s))
     = date_now e' + 5000 \<and>
   (flushTimer s = None \<longrightarrow>
      tasks (flush_catch e' err events' (flush_settled e (Resolved status) events s)) =
        tasks s @ [Task (next_handle s) (SetTimeout 5000) CbScheduleFlush])"
  by (simp add: flush_settled_def flush_catch_def Let_def getBackoffDelay_def MAX_BACKOFF_MS_def)

theorem success_resets_breaker_witness:
  "response_ok 200 \<and>
   consecutiveFailures
     (flush_settled (env_at 2000000) (Resolved 200) [sample_event ''a'']
        (fresh\<lparr> consecutiveFailures := 4, backoffUntil := 2080000 \<rparr>)) = 0 \<and>
   backoffUntil
     (flush_settled (env_at 2000000) (Resolved 200) [sample_event ''a'']
        (fresh\<lparr> consecutiveFailures := 4, backoffUntil := 2080000 \<rparr>)) = 0 \<and>
   backoffUntil
     (flush_catch (env_at 3000000) (JStr ''offline'') [sample_event ''b'']
        (flush_settled (env_at 2000000) (Resolved 200) [sample_event ''a'']
           (fresh\<lparr> consecutiveFailures := 4, backoffUntil := 2080000 \<rparr>))) = 3005000"
proof -
  have ok: "response_ok 200"
    by (simp add: response_ok_def)
  show ?thesis
    using ok success_resets_breaker [OF ok, of "env_at 2000000" "[sample_event ''a'']"
           "fresh\<lparr> consecutiveFailures := 4, backoffUntil := 2080000 \<rparr>"
           "env_at 3000000" "JStr ''offline''" "[sample_event ''b'']"]
    by (simp add: env_at_def)
qed

section \<open>Teardown flush\<close>



section \<open>The events built by trackPageView and trackError\<close>

lemma fullEvent_fields [simp]:
  "type' (fullEvent e ty nm v r p s) = ty"
  "name (fullEvent e ty nm v r p s) = nm"
  "value' (fullEvent e ty nm v r p s) = v"
  "rating (fullEvent e ty nm v r p s) = r"
  "properties (fullEvent e ty nm v r p s) = p"
  "timestamp (fullEvent e ty nm v r p s) = date_now e"
  "sessionId (fullEvent e ty nm v r p s) = fst (getSession e s)"
  "page (fullEvent e ty nm v r p s) = getPage e s"
  by (simp_all add: fullEvent_def)

lemma last_property_collect [simp]:
  "last_property k (collect e ty nm v r (Some m) s) = m k"
  by (cases "eventQueue s") (simp_all add: last_property_def collect_eventQueue)

lemma page_view_properties_path:
  "page_view_properties path p ''path'' =
     (case spread p ''path'' of Some v \<Rightarrow> Some v | None \<Rightarrow> Some (JStr path))"
  by (simp add: page_view_properties_def map_add_def split: option.splits)

text \<open>
  C10. \<open>trackPageView(path, properties)\<close> queues an event named \<open>page_view\<close> whose
  properties carry, under the key \<open>path\<close>, the caller's value when \<open>properties\<close> has
  that key, and the \<open>path\<close> argument only when it has not; every other key is the
  caller's.
\<close>

theorem page_view_path:
  "\<exists>ev m. eventQueue (trackPageView e path p s) = eventQueue s @ [ev] \<and>
      type' ev = Event \<and> name ev = ''page_view'' \<and> properties ev = Some m \<and>
      (\<forall>c v. p = Some c \<and> c ''path'' = Some v \<longrightarrow> m ''path'' = Some v) \<and>
      (p = None \<or> (\<exists>c. p = Some c \<and> c ''path'' = None) \<longrightarrow> m ''path'' = Some (JStr path)) \<and>
      (\<forall>k. k \<noteq> ''path'' \<longrightarrow> m k = spread p k)"
proof -
  let ?ev = "fullEvent e Event ''page_view'' None None (Some (page_view_properties path p)) s"
  have q: "eventQueue (trackPageView e path p s) = eventQueue s @ [?ev]"
    by (simp add: trackPageView_def trackEvent_def collect_eventQueue)
  have a: "\<forall>c v. p = Some c \<and> c ''path'' = Some v \<longrightarrow>
             page_view_properties path p ''path'' = Some v"
    by (simp add: page_view_properties_path spread_def)
  have b: "p = None \<or> (\<exists>c. p = Some c \<and> c ''path'' = None) \<longrightarrow>
             page_view_properties path p ''path'' = Some (JStr path)"
    by (auto simp add: page_view_properties_path spread_def)
  have c: "\<forall>k. k \<noteq> ''path'' \<longrightarrow> page_view_properties path p k = spread p k"
    by (simp add: page_view_properties_def map_add_def split: option.splits)
  show ?thesis
    using q a b c
    by (intro exI [of _ ?ev] exI [of _ "page_view_properties path p"]) simp
qed

theorem page_view_path_witness:
  "last_property ''path''
     (trackPageView (env_at 1000000) ''/cart'' (Some [''path'' \<mapsto> JStr ''/override'']) fresh)
     = Some (JStr ''/override'') \<and>
   last_property ''path''
     (trackPageView (env_at 1000000) ''/cart'' (Some [''referrer'' \<mapsto> JStr ''/home'']) fresh)
     = Some (JStr ''/cart'') \<and>
   last_property ''path'' (trackPageView (env_at 1000000) ''/cart'' None fresh)
     = Some (JStr ''/cart'')"
  using page_view_path [of "env_at 1000000" "''/cart''" "Some [''path'' \<mapsto> JStr ''/override'']" fresh]
        page_view_path [of "env_at 1000000" "''/cart''" "Some [''referrer'' \<mapsto> JStr ''/home'']" fresh]
        page_view_path [of "env_at 1000000" "''/cart''" None fresh]
  by (simp add: trackPageView_def trackEvent_def page_view_properties_path spread_def)

lemma error_properties_keys:
  "error_properties err p ''error'' = Some err"
  "error_properties err p ''message'' =
     Some (JStr (message_of err))"
  "error_properties err p ''stack'' =
     Some (if instanceof_Error err then error_stack err else JUndefined)"
  "k \<noteq> ''error'' \<Longrightarrow> k \<noteq> ''message'' \<Longrightarrow> k \<noteq> ''stack'' \<Longrightarrow>
     error_properties err p k = spread p k"
  by (simp_all add: error_properties_def map_add_def)

text \<open>
  C4 (as amended). \<open>trackError(name, error, properties)\<close> queues an event of type
  \<open>error\<close> whose properties are the caller's properties merged with three keys set by
  the engine: \<open>error\<close> (the raw error value), \<open>message\<close> (the message of an
  \<open>Error\<close>, the string form of any other value) and \<open>stack\<close> (the stack of an
  \<open>Error\<close>, \<open>undefined\<close> otherwise). The caller's fields win on every key except
  those three.
\<close>

theorem trackError_properties:
  "\<exists>ev m. eventQueue (trackError e nm err p s) = eventQueue s @ [ev] \<and>
      type' ev = Error \<and> name ev = nm \<and> properties ev = Some m \<and>
      m ''error'' = Some err \<and>
      m ''message'' = Some (JStr (message_of err)) \<and>
      m ''stack'' = Some (if instanceof_Error err then error_stack err else JUndefined) \<and>
      (\<forall>k. k \<noteq> ''error'' \<and> k \<noteq> ''message'' \<and> k \<noteq> ''stack'' \<longrightarrow> m k = spread p k)"
proof -
  let ?ev = "fullEvent e Error nm None None (Some (error_properties err p)) s"
  have q: "eventQueue (trackError e nm err p s) = eventQueue s @ [?ev]"
    by (simp add: trackError_def collect_eventQueue)
  show ?thesis
    using q
    by (intro exI [of _ ?ev] exI [of _ "error_properties err p"])
       (simp add: error_properties_keys)
qed

theorem trackError_properties_witness:
  "last_property ''message''
     (trackError (env_at 1000000) ''checkout'' (JError ''card declined'' (Some ''at pay (app.js:7)''))
        (Some [''context'' \<mapsto> JStr ''test'', ''message'' \<mapsto> JStr ''mine'']) fresh)
     = Some (JStr ''card declined'') \<and>
   last_property ''stack''
     (trackError (env_at 1000000) ''checkout'' (JError ''card declined'' (Some ''at pay (app.js:7)''))
        (Some [''context'' \<mapsto> JStr ''test'', ''message'' \<mapsto> JStr ''mine'']) fresh)
     = Some (JStr ''at pay (app.js:7)'') \<and>
   last_property ''context''
     (trackError (env_at 1000000) ''checkout'' (JError ''card declined'' (Some ''at pay (app.js:7)''))
        (Some [''context'' \<mapsto> JStr ''test'', ''message'' \<mapsto> JStr ''mine'']) fresh)
     = Some (JStr ''test'') \<and>
   last_property ''message''
     (trackError (env_at 1000000) ''test_error'' (JStr ''string error'') None fresh)
     = Some (JStr ''string error'') \<and>
   last_property ''stack''
     (trackError (env_at 1000000) ''test_error'' (JStr ''string error'') None fresh)
     = Some JUndefined \<and>
   last_property ''message''
     (trackError (env_at 1000000) ''test_error'' (JOther ''1e+21'')
        (Some [''message'' \<mapsto> JStr ''mine'']) fresh)
     = Some (JStr ''1e+21'') \<and>
   last_property ''message'' (trackError (env_at 1000000) ''test_error'' JNull None fresh)
     = Some (JStr ''null'') \<and>
   last_property ''message'' (trackError (env_at 1000000) ''test_error'' JUndefined None fresh)
     = Some (JStr ''undefined'') \<and>
   last_property ''message'' (trackError (env_at 1000000) ''test_error'' (JBool False) None fresh)
     = Some (JStr ''false'')"
proof -
  have a: "last_property ''message''
     (trackError (env_at 1000000) ''checkout'' (JError ''card declined'' (Some ''at pay (app.js:7)''))
        (Some [''context'' \<mapsto> JStr ''test'', ''message'' \<mapsto> JStr ''mine'']) fresh)
     = Some (JStr ''card declined'') \<and>
   last_property ''stack''
     (trackError (env_at 1000000) ''checkout'' (JError ''card declined'' (Some ''at pay (app.js:7)''))
        (Some [''context'' \<mapsto> JStr ''test'', ''message'' \<mapsto> JStr ''mine'']) fresh)
     = Some (JStr ''at pay (app.js:7)'') \<and>
   last_property ''context''
     (trackError (env_at 1000000) ''checkout'' (JError ''card declined'' (Some ''at pay (app.js:7)''))
        (Some [''context'' \<mapsto> JStr ''test'', ''message'' \<mapsto> JStr ''mine'']) fresh)
     = Some (JStr ''test'')"
    using trackError_properties [of "env_at 1000000" "''checkout''"
            "JError ''card declined'' (Some ''at pay (app.js:7)'')"
            "Some [''context'' \<mapsto> JStr ''test'', ''message'' \<mapsto> JStr ''mine'']" fresh]
    by (simp add: trackError_def error_properties_keys spread_def)
  have b: "last_property ''message''
     (trackError (env_at 1000000) ''test_error'' (JStr ''string error'') None fresh)
     = Some (JStr ''string error'') \<and>
   last_property ''stack''
     (trackError (env_at 1000000) ''test_error'' (JStr ''string error'') None fresh)
     = Some JUndefined"
    using trackError_properties [of "env_at 1000000" "''test_error''" "JStr ''string error''"
            None fresh]
    by (simp add: trackError_def error_properties_keys)
  have c: "last_property ''message''
     (trackError (env_at 1000000) ''test_error'' (JOther ''1e+21'')
        (Some [''message'' \<mapsto> JStr ''mine'']) fresh)
     = Some (JStr ''1e+21'')"
    using trackError_properties [of "env_at 1000000" "''test_error''" "JOther ''1e+21''"
            "Some [''message'' \<mapsto> JStr ''mine'']" fresh]
    by (simp add: trackError_def error_properties_keys)
  have d: "last_property ''message'' (trackError (env_at 1000000) ''test_error'' JNull None fresh)
     = Some (JStr ''null'') \<and>
   last_property ''message'' (trackError (env_at 1000000) ''test_error'' JUndefined None fresh)
     = Some (JStr ''undefined'') \<and>
   last_property ''message'' (trackError (env_at 1000000) ''test_error'' (JBool False) None fresh)
     = Some (JStr ''false'')"
    using trackError_properties [of "env_at 1000000" "''test_error''" JNull None fresh]
    by (simp add: trackError_def error_properties_keys)
  show ?thesis
    using a b c d by simp
qed

theorem trackError_properties_counterexample:
  "spread (Some [''error'' \<mapsto> JStr ''mine'']) ''error'' = Some (JStr ''mine'') \<and>
   last_property ''error''
     (trackError (env_at 1000000) ''checkout'' (JStr ''boom'') (Some [''error'' \<mapsto> JStr ''mine''])
        fresh)
     = Some (JStr ''boom'') \<and>
   JStr ''boom'' \<noteq> JStr ''mine'' \<and>
   last_property ''message''
     (trackError (env_at 1000000) ''checkout'' (JStr ''boom'') (Some [''error'' \<mapsto> JStr ''mine''])
        fresh)
     = Some (JStr ''boom'') \<and>
   last_property ''stack''
     (trackError (env_at 1000000) ''checkout'' (JStr ''boom'') (Some [''error'' \<mapsto> JStr ''mine''])
        fresh)
     = Some JUndefined \<and>
   spread None ''error'' = None \<and>
   last_property ''error'' (trackError (env_at 1000000) ''checkout'' (JStr ''boom'') None fresh)
     = Some (JStr ''boom'')"
  by (simp add: trackError_def error_properties_keys spread_def)

section \<open>Flush triggers inside a backoff window\<close>




section \<open>Tracking after cleanup\<close>

lemma deliveries_append [simp]: "deliveries (xs @ ys) = deliveries xs @ deliveries ys"
  by (simp add: deliveries_def)

lemma deliveries_simps [simp]:
  "deliveries [] = []"
  "deliveries [ConsoleLog m] = []"
  "deliveries [ConsoleError x] = []"
  "deliveries [ConsoleWarn t a d x] = []"
  "deliveries [Fetch u evs] = [Fetch u evs]"
  "deliveries [SendBeacon u evs] = [SendBeacon u evs]"
  by (simp_all add: deliveries_def)

lemma clearTimeout_fields [simp]:
  "config (clearTimeout h s) = config s"
  "isDebug (clearTimeout h s) = isDebug s"
  "eventQueue (clearTimeout h s) = eventQueue s"
  "flushTimer (clearTimeout h s) = flushTimer s"
  "consecutiveFailures (clearTimeout h s) = consecutiveFailures s"
  "backoffUntil (clearTimeout h s) = backoffUntil s"
  "lastErrorLogged (clearTimeout h s) = lastErrorLogged s"
  "next_handle (clearTimeout h s) = next_handle s"
  "listeners (clearTimeout h s) = listeners s"
  "inflight (clearTimeout h s) = inflight s"
  "trace (clearTimeout h s) = trace s"
  by (simp_all add: clearTimeout_def)

lemma cleanup_fields [simp]:
  "config (cleanup e s) = config s"
  "isDebug (cleanup e s) = isDebug s"
  "eventQueue (cleanup e s) = eventQueue s"
  "flushTimer (cleanup e s) = None"
  "consecutiveFailures (cleanup e s) = consecutiveFailures s"
  "backoffUntil (cleanup e s) = backoffUntil s"
  "lastErrorLogged (cleanup e s) = lastErrorLogged s"
  "next_handle (cleanup e s) = next_handle s"
  "inflight (cleanup e s) = inflight s"
  "trace (cleanup e s) = trace s @ (if isDebug s then [ConsoleLog LogCleanedUp] else [])"
  by (simp_all add: cleanup_def Let_def resetSessionCache_def split: option.splits)

lemma collect_fields [simp]:
  "config (collect e ty nm v r p s) = config s"
  "isDebug (collect e ty nm v r p s) = isDebug s"
  "consecutiveFailures (collect e ty nm v r p s) = consecutiveFailures s"
  "backoffUntil (collect e ty nm v r p s) = backoffUntil s"
  "lastErrorLogged (collect e ty nm v r p s) = lastErrorLogged s"
  "listeners (collect e ty nm v r p s) = listeners s"
  "inflight (collect e ty nm v r p s) = inflight s"
  "trace (collect e ty nm v r p s) =
     trace s @ (if isDebug s then [ConsoleLog (LogCollected ty nm)] else [])"
  by (simp_all add: collect_def Let_def)

lemma step_track:
  "is_track a \<Longrightarrow>
   \<exists>ty nm v r p. step e a s = collect e ty nm v r p s \<or>
                 (\<exists>x. step e a s = emit (ConsoleError x) (collect e ty nm v r p s))"
proof (cases a)
  case (TrackMetric nm v r p)
  then have "step e a s = collect e Metric nm (Some v) r p s"
    by (simp add: trackMetric_def)
  then show ?thesis by blast
next
  case (TrackEvent nm p)
  then have "step e a s = collect e Event nm None None p s"
    by (simp add: trackEvent_def)
  then show ?thesis by blast
next
  case (TrackError nm err p)
  then have "step e a s = collect e Error nm None None (Some (error_properties err p)) s"
    by (simp add: trackError_def)
  then show ?thesis by blast
next
  case (TrackTrace nm p)
  then have "step e a s = collect e Trace nm None None p s"
    by (simp add: trackTrace_def)
  then show ?thesis by blast
next
  case (CaptureException err ctx)
  then have "step e a s =
      emit (ConsoleError err)
        (collect e Error ''exception'' None None (Some (error_properties err ctx)) s)"
    by (simp add: captureException_def trackError_def)
  then show ?thesis by blast
next
  case (TrackPageView path p)
  then have "step e a s =
      collect e Event ''page_view'' None None (Some (page_view_properties path p)) s"
    by (simp add: trackPageView_def trackEvent_def)
  then show ?thesis by blast
qed simp_all


lemma clearTimeout_tasks [simp]:
  "tasks (clearTimeout h s) = filter (\<lambda>t. \<not> is_timeout h t) (tasks s)"
  by (simp add: clearTimeout_def)










section \<open>Rate limit of the failure warning\<close>

lemma warn_times_append [simp]: "warn_times (xs @ ys) = warn_times xs @ warn_times ys"
  by (induction xs rule: warn_times.induct) simp_all

lemma flush_warn [simp]:
  "warn_times (trace (flush e s)) = warn_times (trace s)"
  "lastErrorLogged (flush e s) = lastErrorLogged s"
  by (simp_all add: flush_def Let_def)

lemma flushWithBeacon_warn [simp]:
  "warn_times (trace (flushWithBeacon e s)) = warn_times (trace s)"
  "lastErrorLogged (flushWithBeacon e s) = lastErrorLogged s"
  by (simp_all add: flushWithBeacon_def Let_def)

lemma flush_then_warn [simp]:
  "warn_times (trace (flush_then s)) = warn_times (trace s)"
  by (simp add: flush_then_def Let_def)

lemma round_div_thousand: "round_div (1000 * k) 1000 = k"
  by (simp add: round_div_def)

lemma round_div_backoff: "round_div (min (5000 * 2 ^ n) 300000) 1000 = min (5 * 2 ^ n) 300"
proof -
  have "min (5000 * 2 ^ n) (300000::int) = 1000 * min (5 * 2 ^ n) 300"
    by (simp add: min_def)
  then show ?thesis
    by (simp only: round_div_thousand)
qed

lemma flush_catch_trace:
  "trace (flush_catch e err events s) =
     trace s @
     (if date_now_later e - lastErrorLogged s \<ge> 60000
      then [ConsoleWarn (date_now_later e) (Suc (consecutiveFailures s))
              (min (5 * 2 ^ consecutiveFailures s) 300)
              (if instanceof_Error err then JStr (error_message err) else err)]
      else [])"
  by (simp add: flush_catch_def Let_def getBackoffDelay_def MAX_BACKOFF_MS_def
        ERROR_LOG_INTERVAL_MS_def round_div_backoff)

lemma flush_catch_lastErrorLogged:
  "lastErrorLogged (flush_catch e err events s) =
     (if date_now_later e - lastErrorLogged s \<ge> 60000 then date_now_later e
      else lastErrorLogged s)"
  by (simp add: flush_catch_def Let_def ERROR_LOG_INTERVAL_MS_def)

lemma flush_catch_backoffUntil:
  "backoffUntil (flush_catch e err events s) =
     date_now e + 1000 * min (5 * 2 ^ consecutiveFailures s) 300"
  by (simp add: flush_catch_def Let_def getBackoffDelay_def MAX_BACKOFF_MS_def min_def)

lemma warn_inv_frame:
  "warn_times (trace s') = warn_times (trace s) \<Longrightarrow> lastErrorLogged s' = lastErrorLogged s \<Longrightarrow>
   warn_inv s \<Longrightarrow> warn_inv s'"
  by (simp add: warn_inv_def)

lemma warn_inv_flush_catch: "warn_inv s \<Longrightarrow> warn_inv (flush_catch e err events s)"
proof (cases "date_now_later e - lastErrorLogged s \<ge> 60000")
  case False
  assume "warn_inv s"
  with False show ?thesis
    by (simp add: warn_inv_def flush_catch_trace flush_catch_lastErrorLogged)
next
  case True
  assume inv: "warn_inv s"
  have a: "\<forall>t \<in> set (warn_times (trace s)). date_now_later e - t \<ge> 60000"
    using inv True by (fastforce simp add: warn_inv_def)
  have b: "sorted_wrt (\<lambda>t u. u - t \<ge> 60000) (warn_times (trace s))"
    using inv by (simp add: warn_inv_def ERROR_LOG_INTERVAL_MS_def)
  have c: "\<forall>t \<in> set (warn_times (trace s)). t \<le> date_now_later e"
    using a by fastforce
  show ?thesis
    using True a b c
    by (simp add: warn_inv_def flush_catch_trace flush_catch_lastErrorLogged
          sorted_wrt_append ERROR_LOG_INTERVAL_MS_def)
qed

lemma warn_inv_flush_settled: "warn_inv s \<Longrightarrow> warn_inv (flush_settled e r events s)"
proof (cases r)
  case (Rejected err)
  assume "warn_inv s"
  with Rejected show ?thesis
    by (simp add: flush_settled_def warn_inv_flush_catch)
next
  case (Resolved status)
  assume inv: "warn_inv s"
  show ?thesis
  proof (cases "response_ok status")
    case True
    have "warn_inv (flush_then s)"
      using inv by (rule warn_inv_frame [rotated 2]) simp_all
    with True Resolved show ?thesis
      by (simp add: flush_settled_def)
  next
    case False
    with Resolved inv show ?thesis
      by (simp add: flush_settled_def warn_inv_flush_catch)
  qed
qed

lemma warn_inv_fetch_settled: "warn_inv s \<Longrightarrow> warn_inv (fetch_settled e k r s)"
proof -
  assume inv: "warn_inv s"
  have "warn_inv (s\<lparr> inflight := take k (inflight s) @ drop (Suc k) (inflight s) \<rparr>)"
    using inv by (simp add: warn_inv_def)
  then show ?thesis
    using inv by (simp add: fetch_settled_def warn_inv_flush_settled)
qed

lemma warn_inv_run_task: "warn_inv s \<Longrightarrow> warn_inv (run_task e h s)"
proof -
  assume inv: "warn_inv s"
  let ?s = "s\<lparr> tasks := filter (\<lambda>t. task_handle t \<noteq> h) (tasks s) \<rparr>"
  have "warn_inv (run_callback e cb ?s)" for cb
    using inv by (cases cb) (simp_all add: run_callback_def warn_inv_def)
  then show ?thesis
    using inv by (simp add: run_task_def split: list.splits)
qed

lemma warn_inv_step: "warn_inv s \<Longrightarrow> warn_inv (step e a s)"
proof (cases a)
  case (RunTask h)
  assume "warn_inv s"
  with RunTask show ?thesis by (simp add: warn_inv_run_task)
next
  case (FetchSettled k r)
  assume "warn_inv s"
  with FetchSettled show ?thesis by (simp add: warn_inv_fetch_settled)
qed (simp_all add: warn_inv_def trackMetric_def trackEvent_def trackError_def trackTrace_def
       captureException_def trackPageView_def flush_api_def getSessionId_api_def
       handleVisibilityChange_def)

lemma warn_inv_run: "warn_inv s \<Longrightarrow> warn_inv (run acts s)"
  by (induction acts arbitrary: s) (auto simp add: warn_inv_step)

lemma warn_inv_createObservability: "warn_inv (createObservability e options)"
  by (simp add: warn_inv_def createObservability_def init_def Let_def)

text \<open>
  C7. Whatever happens to an instance after its creation, any two failure warnings it has
  printed are at least 60000 ms of wall-clock time apart (in the order printed), so no 60
  seconds see more than one, however many failures occur; and a failure prints at most one
  warning, which carries the attempt number (the count of consecutive failures, this one
  included) and the retry delay just computed, in seconds.
\<close>

theorem warning_rate_limit:
  "sorted_wrt (\<lambda>t u. u - t \<ge> 60000)
     (warn_times (trace (run acts (createObservability e0 options)))) \<and>
   trace (flush_catch e err events s) =
     trace s @
     (if date_now_later e - lastErrorLogged s \<ge> 60000
      then [ConsoleWarn (date_now_later e) (consecutiveFailures (flush_catch e err events s))
              ((backoffUntil (flush_catch e err events s) - date_now e) div 1000)
              (if instanceof_Error err then JStr (error_message err) else err)]
      else [])"
proof -
  have "warn_inv (run acts (createObservability e0 options))"
    by (rule warn_inv_run) (rule warn_inv_createObservability)
  then have a: "sorted_wrt (\<lambda>t u. u - t \<ge> 60000)
     (warn_times (trace (run acts (createObservability e0 options))))"
    by (simp add: warn_inv_def ERROR_LOG_INTERVAL_MS_def)
  have b: "consecutiveFailures (flush_catch e err events s) = Suc (consecutiveFailures s)"
    by (simp add: flush_catch_def Let_def)
  show ?thesis
    using a by (simp add: flush_catch_trace flush_catch_backoffUntil b)
qed

theorem warning_rate_limit_witness:
  "warn_times (trace (run outage_scenario fresh)) = [1000100, 1065200] \<and>
   consecutiveFailures (run outage_scenario fresh) = 3 \<and>
   trace (run outage_scenario fresh) =
     [Fetch ''/api/telemetry'' [sample_event ''a''],
      ConsoleWarn 1000100 1 5 (JStr ''Network error''),
      Fetch ''/api/telemetry'' [sample_event ''a''],
      Fetch ''/api/telemetry'' [sample_event ''a''],
      ConsoleWarn 1065200 3 20 (JStr ''offline'')]"
  using warning_rate_limit [of outage_scenario "env_at 1000000" no_options]
  by (simp add: outage_scenario_def sample_event_def engine_defs)

section \<open>Events are stamped on creation and never changed\<close>

lemma held_frame:
  "eventQueue s' = eventQueue s \<Longrightarrow> inflight s' = inflight s \<Longrightarrow> held s' = held s"
  by (simp add: held_def)

lemma held_flush: "held (flush e s) \<subseteq> held s"
  by (auto simp add: flush_def Let_def held_def)

lemma held_flushWithBeacon: "held (flushWithBeacon e s) \<subseteq> held s"
  by (auto simp add: flushWithBeacon_def Let_def held_def)

lemma held_scheduleFlush: "held (scheduleFlush e s) = held s"
  by (rule held_frame) simp_all

lemma held_cleanup: "held (cleanup e s) = held s"
  by (rule held_frame) simp_all

lemma held_getSession: "held (snd (getSession e s)) = held s"
  by (rule held_frame) simp_all

lemma flush_catch_inflight [simp]: "inflight (flush_catch e err events s) = inflight s"
  by (simp add: flush_catch_def Let_def)

lemma held_flush_catch: "held (flush_catch e err events s) \<subseteq> held s \<union> set events"
  by (auto simp add: held_def flush_catch_eventQueue dest: in_set_takeD)

lemma held_flush_settled: "held (flush_settled e r events s) \<subseteq> held s \<union> set events"
proof (cases r)
  case (Rejected err)
  then show ?thesis
    using held_flush_catch [of e err events s] by (simp add: flush_settled_def)
next
  case (Resolved status)
  show ?thesis
  proof (cases "response_ok status")
    case True
    have "held (flush_then s) = held s"
      by (rule held_frame) simp_all
    with True Resolved show ?thesis
      by (simp add: flush_settled_def)
  next
    case False
    with Resolved show ?thesis
      using held_flush_catch [of e "JError (''Telemetry request failed: '' @ show_nat status) None" events s]
      by (simp add: flush_settled_def)
  qed
qed

lemma held_fetch_settled: "held (fetch_settled e k r s) \<subseteq> held s"
proof (cases "k < length (inflight s)")
  case False
  then show ?thesis by (simp add: fetch_settled_def)
next
  case True
  let ?s = "s\<lparr> inflight := take k (inflight s) @ drop (Suc k) (inflight s) \<rparr>"
  have a: "held ?s \<subseteq> held s"
    by (auto simp add: held_def dest: in_set_takeD in_set_dropD)
  have b: "set (inflight s ! k) \<subseteq> held s"
    using True by (auto simp add: held_def)
  have "held (flush_settled e r (inflight s ! k) ?s) \<subseteq> held ?s \<union> set (inflight s ! k)"
    by (rule held_flush_settled)
  with a b True show ?thesis
    by (auto simp add: fetch_settled_def)
qed

lemma held_run_task: "held (run_task e h s) \<subseteq> held s"
proof -
  let ?s = "s\<lparr> tasks := filter (\<lambda>t. task_handle t \<noteq> h) (tasks s) \<rparr>"
  have a: "held ?s = held s"
    by (rule held_frame) simp_all
  have "held (run_callback e cb ?s) \<subseteq> held ?s" for cb
    using held_flush [of e ?s] held_scheduleFlush [of e ?s]
    by (cases cb) (simp_all add: run_callback_def)
  with a show ?thesis
    by (simp add: run_task_def split: list.splits)
qed

lemma held_collect:
  "held (collect e ty nm v r p s) = insert (fullEvent e ty nm v r p s) (held s)"
  by (simp add: held_def collect_eventQueue)

lemma held_emit [simp]: "held (emit x s) = held s"
  by (rule held_frame) simp_all

lemma held_step:
  "held (step e a s) \<subseteq> held s \<union> (if is_track a then {last (eventQueue (step e a s))} else {})"
proof (cases "is_track a")
  case True
  then obtain ty nm v r p where
    c: "step e a s = collect e ty nm v r p s \<or>
        (\<exists>x. step e a s = emit (ConsoleError x) (collect e ty nm v r p s))"
    using step_track by blast
  then have "held (step e a s) = insert (fullEvent e ty nm v r p s) (held s)"
    by (auto simp add: held_collect)
  moreover have "last (eventQueue (step e a s)) = fullEvent e ty nm v r p s"
    using c by (auto simp add: collect_eventQueue)
  ultimately show ?thesis
    using True by simp
next
  case False
  then have "held (step e a s) \<subseteq> held s"
  proof (cases a)
    case FlushCall
    then show ?thesis by (simp add: flush_api_def held_scheduleFlush)
  next
    case Cleanup
    then show ?thesis by (simp add: held_cleanup)
  next
    case GetSessionId
    then show ?thesis by (simp add: getSessionId_api_def held_getSession)
  next
    case (RunTask h)
    then show ?thesis by (simp add: held_run_task)
  next
    case (FetchSettled k r)
    then show ?thesis by (simp add: held_fetch_settled)
  next
    case VisibilityChange
    then show ?thesis
      using held_flushWithBeacon [of e s] by (simp add: handleVisibilityChange_def)
  next
    case BeforeUnload
    then show ?thesis
      using held_flushWithBeacon [of e s] by simp
  qed simp_all
  with False show ?thesis by simp
qed

text \<open>
  C9. Each track-* call appends one event whose \<open>type\<close> and \<open>name\<close> are those of the
  call and whose \<open>timestamp\<close>, \<open>sessionId\<close> and \<open>page\<close> are the clock reading, the
  session id and the page at the moment of the call. No operation changes an event the
  instance holds: after any step, every event in the queue or in a batch in flight was
  already held before the step, or is the event a track-* call has just appended.
\<close>

theorem events_stamped_and_kept:
  "eventQueue (step e (TrackMetric nm v r p) s) =
     eventQueue s @
     [\<lparr> type' = Metric, name = nm, value' = Some v, rating = r, properties = p,
        timestamp = date_now e, sessionId = fst (getSession e s), page = getPage e s \<rparr>] \<and>
   eventQueue (step e (TrackEvent nm p) s) =
     eventQueue s @
     [\<lparr> type' = Event, name = nm, value' = None, rating = None, properties = p,
        timestamp = date_now e, sessionId = fst (getSession e s), page = getPage e s \<rparr>] \<and>
   eventQueue (step e (TrackError nm err p) s) =
     eventQueue s @
     [\<lparr> type' = Error, name = nm, value' = None, rating = None,
        properties = Some (error_properties err p),
        timestamp = date_now e, sessionId = fst (getSession e s), page = getPage e s \<rparr>] \<and>
   eventQueue (step e (TrackTrace nm p) s) =
     eventQueue s @
     [\<lparr> type' = Trace, name = nm, value' = None, rating = None, properties = p,
        timestamp = date_now e, sessionId = fst (getSession e s), page = getPage e s \<rparr>] \<and>
   eventQueue (step e (CaptureException err p) s) =
     eventQueue s @
     [\<lparr> type' = Error, name = ''exception'', value' = None, rating = None,
        properties = Some (error_properties err p),
        timestamp = date_now e, sessionId = fst (getSession e s), page = getPage e s \<rparr>] \<and>
   eventQueue (step e (TrackPageView path p) s) =
     eventQueue s @
     [\<lparr> type' = Event, name = ''page_view'', value' = None, rating = None,
        properties = Some (page_view_properties path p),
        timestamp = date_now e, sessionId = fst (getSession e s), page = getPage e s \<rparr>] \<and>
   held (step e a s) \<subseteq> held s \<union> (if is_track a then {last (eventQueue (step e a s))} else {})"
  using held_step [of e a s]
  by (simp add: trackMetric_def trackEvent_def trackError_def trackTrace_def
        captureException_def trackPageView_def collect_eventQueue fullEvent_def)

theorem events_stamped_and_kept_witness:
  "eventQueue (step (env_at 1000500) (TrackMetric ''LCP'' 2300 (Some Good) None) backoff_scenario) =
     [sample_event ''a'',
      \<lparr> type' = Metric, name = ''LCP'', value' = Some 2300, rating = Some Good, properties = None,
        timestamp = 1000500, sessionId = ''1700000000000-k3j9x0q1z'', page = ''/home'' \<rparr>] \<and>
   is_track (TrackMetric ''LCP'' 2300 (Some Good) None) \<and>
   \<not> is_track (RunTask 4) \<and>
   held (step (env_at 1001000) (RunTask 4) backoff_scenario) \<subseteq> held backoff_scenario"
proof -
  have a: "eventQueue (step (env_at 1000500) (TrackMetric ''LCP'' 2300 (Some Good) None)
                         backoff_scenario) =
     [sample_event ''a'',
      \<lparr> type' = Metric, name = ''LCP'', value' = Some 2300, rating = Some Good, properties = None,
        timestamp = 1000500, sessionId = ''1700000000000-k3j9x0q1z'', page = ''/home'' \<rparr>]"
    using events_stamped_and_kept
            [where e = "env_at 1000500" and nm = "''LCP''" and v = 2300 and r = "Some Good"
               and p = None and s = backoff_scenario, THEN conjunct1]
    by (simp add: backoff_scenario_fields backoff_scenario_session getSession_def
          getSessionId_def getPage_def getCurrentPage_def DEFAULT_CONFIG_def env_at_def)
  have b: "held (step (env_at 1001000) (RunTask 4) backoff_scenario) \<subseteq> held backoff_scenario"
    using events_stamped_and_kept
            [where e = "env_at 1001000" and a = "RunTask 4" and s = backoff_scenario,
             THEN conjunct2, THEN conjunct2, THEN conjunct2, THEN conjunct2, THEN conjunct2,
             THEN conjunct2]
    by simp
  show ?thesis
    using a b by simp
qed

end
